theory Spec2Isabelle
  imports Main "HOL-Library.Word"
begin

section \<open>The CSV base scanner: data model\<close>

text \<open>
  The embedding follows the scanner's translation unit (ScannerResult, ScannerPosition and
  BaseScanner). \<open>idx_t\<close> is an unsigned 64-bit integer, so offsets are words and
  \<open>pos + 1\<close> wraps around as it does in the code.
\<close>

type_synonym idx_t = "64 word"

text \<open>Every \<open>throw InternalException(msg)\<close> of the source is the value \<open>Inl (InternalException msg)\<close>.
  Dereferencing an absent buffer handle (\<open>cur_buffer_handle->Ptr()\<close> on a null handle) is
  \<open>NullDereference\<close>.\<close>

datatype error = InternalException string | NullDereference

text \<open>Modelled from the spec: the enum CSVState is declared outside the translation unit, which
  names only \<open>CSVState::EMPTY_LINE\<close>. The states are the ones the spec lists for the byte-level
  automaton.\<close>

datatype CSVState =
    EMPTY_LINE | STANDARD | FIELD_DELIMITER | RECORD_SEPARATOR | QUOTED
  | QUOTED_NEWLINE | ESCAPED | UNQUOTED_QUOTE | INVALID_STATE | DONE

text \<open>Modelled from the spec: the struct CSVStates (the state of the byte-level automaton) is
  declared outside the translation unit. It holds the automaton's current state.\<close>

record CSVStates =
  current_state :: CSVState

text \<open>Modelled from the spec: \<open>CSVStates::Initialize(initial_state)\<close> is declared outside the
  translation unit; it resets the automaton to the given starting state.\<close>

definition CSVStates_Initialize :: "CSVStates \<Rightarrow> CSVState \<Rightarrow> CSVStates" where
  "CSVStates_Initialize st initial_state = st\<lparr>current_state := initial_state\<rparr>"

text \<open>ScannerResult: the cursor \<open>result_position\<close> is the only field its methods read. The
  references it keeps to the scanner's states and state machine are aliases, not data of
  its own.\<close>

record ScannerResult =
  result_position :: idx_t

definition Size :: "ScannerResult \<Rightarrow> idx_t" where
  "Size r = result_position r"

definition Empty :: "ScannerResult \<Rightarrow> bool" where
  "Empty r = (result_position r = 0)"

text \<open>ScannerBoundary, read through \<open>GetFileIdx\<close>, \<open>GetBufferIdx\<close>, \<open>GetBufferPos\<close> and
  \<open>GetEndPos\<close> and written through \<open>SetEndPos\<close>. The struct is declared outside the
  translation unit: its fields are the ones these accessors name.\<close>

record ScannerBoundary =
  file_idx :: idx_t
  buffer_idx :: idx_t
  buffer_pos :: idx_t
  end_pos :: idx_t

definition GetFileIdx :: "ScannerBoundary \<Rightarrow> idx_t" where
  "GetFileIdx b = file_idx b"

definition GetBufferIdx :: "ScannerBoundary \<Rightarrow> idx_t" where
  "GetBufferIdx b = buffer_idx b"

definition GetBufferPos :: "ScannerBoundary \<Rightarrow> idx_t" where
  "GetBufferPos b = buffer_pos b"

definition GetEndPos :: "ScannerBoundary \<Rightarrow> idx_t" where
  "GetEndPos b = end_pos b"

definition SetEndPos :: "ScannerBoundary \<Rightarrow> idx_t \<Rightarrow> ScannerBoundary" where
  "SetEndPos b e = b\<lparr>end_pos := e\<rparr>"

text \<open>Modelled from the spec: \<open>ScannerBoundary::InBoundary(file, buffer, pos)\<close> is declared
  outside the translation unit. The spec: true iff file/buffer indices match and offset lies
  in \<open>[start, end)\<close>.\<close>

definition ScannerBoundary_InBoundary :: "ScannerBoundary \<Rightarrow> idx_t \<Rightarrow> idx_t \<Rightarrow> idx_t \<Rightarrow> bool" where
  "ScannerBoundary_InBoundary b file_idx_p buffer_idx_p buffer_pos_p =
     (file_idx b = file_idx_p \<and> buffer_idx b = buffer_idx_p \<and>
      buffer_pos b \<le> buffer_pos_p \<and> buffer_pos_p < end_pos b)"

text \<open>ScannerPosition: \<open>{file_id, buffer_id, pos, done}\<close>. The field \<open>done\<close> is
  written \<open>done_flag\<close> (\<open>done\<close> is a proof command).\<close>

record ScannerPosition =
  file_id :: idx_t
  buffer_id :: idx_t
  pos :: idx_t
  done_flag :: bool

definition InBoundary :: "ScannerPosition \<Rightarrow> ScannerBoundary \<Rightarrow> bool" where
  "InBoundary p boundary = ScannerBoundary_InBoundary boundary (file_id p) (buffer_id p) (pos p)"

text \<open>The buffer handle: the bytes behind \<open>Ptr()\<close> and the number of valid bytes.\<close>

record CSVBufferHandle =
  Ptr :: "8 word list"
  actual_size :: idx_t

text \<open>The buffer manager is an external collaborator; the scanner only calls
  \<open>GetBuffer\<close>, \<open>FileCount\<close>, \<open>Done\<close> and \<open>CachedBufferPerFile\<close> on it. Their
  implementations are outside the translation unit, so each is a field holding what the
  call answers. \<open>GetBuffer\<close> answers \<open>None\<close> for a null handle.\<close>

record CSVBufferManager =
  GetBuffer :: "idx_t \<Rightarrow> idx_t \<Rightarrow> CSVBufferHandle option"
  FileCount :: idx_t
  Done :: bool
  CachedBufferPerFile :: "idx_t \<Rightarrow> idx_t"

text \<open>BaseScanner. The state machine is only stored and handed back, so its type is a
  parameter. The member \<open>pos\<close> (a ScannerPosition) is written \<open>position\<close>, since
  \<open>pos\<close> is already the offset field of ScannerPosition. A concrete scan mode extends
  the record.\<close>

record 'sm BaseScanner =
  boundary :: ScannerBoundary
  buffer_manager :: CSVBufferManager
  state_machine :: 'sm
  cur_buffer_handle :: "CSVBufferHandle option"
  buffer_handle_ptr :: "8 word list"
  position :: ScannerPosition
  states :: CSVStates
  initialized :: bool

text \<open>Modelled from the spec: a concrete scan mode is declared outside the translation unit.
  It is a Scanner that owns the Result accumulator its \<open>ParseChunk\<close> fills.\<close>

record 'sm ResultScanner = "'sm BaseScanner" +
  result :: ScannerResult

section \<open>The operations of BaseScanner\<close>

text \<open>Modelled from the spec: the members the constructor does not assign take the defaults of
  their declarations, which are outside the translation unit. A fresh Position is not done, a
  fresh Scanner is in its lifecycle state Uninitialized, and the automaton has not started.\<close>

definition CSVStates_default :: CSVStates where
  "CSVStates_default = \<lparr>current_state = EMPTY_LINE\<rparr>"

text \<open>The constructor. The member \<open>boundary\<close> is initialised from the by-value parameter
  \<open>boundary_p\<close> in the initialiser list; the body then calls \<open>SetEndPos\<close> on the parameter
  and reads the Position from it. A null buffer handle fails at \<open>cur_buffer_handle->Ptr()\<close>.\<close>

definition BaseScanner_new ::
  "CSVBufferManager \<Rightarrow> 'sm \<Rightarrow> ScannerBoundary \<Rightarrow> error + 'sm BaseScanner" where
  "BaseScanner_new buffer_manager_p state_machine_p boundary_p =
     (case GetBuffer buffer_manager_p (GetFileIdx boundary_p) (GetBufferIdx boundary_p) of
        None \<Rightarrow> Inl NullDereference
      | Some h \<Rightarrow>
          (let boundary_p' =
                 SetEndPos boundary_p
                   (if GetEndPos boundary_p > actual_size h then actual_size h
                    else GetEndPos boundary_p)
           in Inr \<lparr>boundary = boundary_p,
                   buffer_manager = buffer_manager_p,
                   state_machine = state_machine_p,
                   cur_buffer_handle = Some h,
                   buffer_handle_ptr = Ptr h,
                   position = \<lparr>file_id = GetFileIdx boundary_p',
                               buffer_id = GetBufferIdx boundary_p',
                               pos = GetBufferPos boundary_p',
                               done_flag = False\<rparr>,
                   states = CSVStates_default,
                   initialized = False\<rparr>))"

definition Finished :: "('sm, 'z) BaseScanner_scheme \<Rightarrow> error + bool" where
  "Finished s =
     (if done_flag (position s) then Inr True
      else case cur_buffer_handle s of
        None \<Rightarrow> Inr True
      | Some h \<Rightarrow>
          if FileCount (buffer_manager s) > 1 then
            Inl (InternalException
              ''We can't have a buffer manager that scans to infinity with more than one file'')
          else if \<not> Done (buffer_manager s) then Inr False
          else if buffer_id (position s)
                    \<noteq> CachedBufferPerFile (buffer_manager s) (file_id (position s))
          then Inr False
          else Inr (pos (position s) + 1 = actual_size h))"

definition Reset :: "('sm, 'z) BaseScanner_scheme \<Rightarrow> ('sm, 'z) BaseScanner_scheme" where
  "Reset s =
     s\<lparr>position := (position s)\<lparr>buffer_id := GetBufferIdx (boundary s),
                                 pos := GetBufferPos (boundary s)\<rparr>\<rparr>"

definition ParseChunk :: "('sm, 'z) BaseScanner_scheme \<Rightarrow> error + ScannerResult" where
  "ParseChunk s =
     Inl (InternalException ''ParseChunk() from CSV Base Scanner is mot implemented'')"

definition GetResult :: "('sm, 'z) BaseScanner_scheme \<Rightarrow> error + ScannerResult" where
  "GetResult s =
     Inl (InternalException ''GetResult() from CSV Base Scanner is mot implemented'')"

definition Initialize :: "('sm, 'z) BaseScanner_scheme \<Rightarrow> ('sm, 'z) BaseScanner_scheme" where
  "Initialize s = s\<lparr>states := CSVStates_Initialize (states s) EMPTY_LINE\<rparr>"

definition Process ::
  "('sm, 'z) BaseScanner_scheme \<Rightarrow> error + ('sm, 'z) BaseScanner_scheme" where
  "Process s =
     Inl (InternalException ''Process() from CSV Base Scanner is mot implemented'')"

definition FinalizeChunkProcess ::
  "('sm, 'z) BaseScanner_scheme \<Rightarrow> error + ('sm, 'z) BaseScanner_scheme" where
  "FinalizeChunkProcess s =
     Inl (InternalException
       ''FinalizeChunkProcess() from CSV Base Scanner is mot implemented'')"

text \<open>\<open>ParseChunkInternal\<close> calls \<open>Initialize\<close>, \<open>Process\<close> and \<open>FinalizeChunkProcess\<close>
  through the object, so a concrete scan mode's overrides run: they are the parameters
  \<open>initialize\<close>, \<open>process\<close> and \<open>finalize\<close>. An exception of \<open>process\<close> skips
  \<open>finalize\<close>.\<close>

definition ParseChunkInternal ::
  "(('sm, 'z) BaseScanner_scheme \<Rightarrow> ('sm, 'z) BaseScanner_scheme) \<Rightarrow>
   (('sm, 'z) BaseScanner_scheme \<Rightarrow> error + ('sm, 'z) BaseScanner_scheme) \<Rightarrow>
   (('sm, 'z) BaseScanner_scheme \<Rightarrow> error + ('sm, 'z) BaseScanner_scheme) \<Rightarrow>
   ('sm, 'z) BaseScanner_scheme \<Rightarrow> error + ('sm, 'z) BaseScanner_scheme" where
  "ParseChunkInternal initialize process finalize s =
     (let s1 = (if \<not> initialized s then initialize s else s)
      in case process s1 of Inl e \<Rightarrow> Inl e | Inr s2 \<Rightarrow> finalize s2)"

definition GetStateMachine :: "('sm, 'z) BaseScanner_scheme \<Rightarrow> 'sm" where
  "GetStateMachine s = state_machine s"

section \<open>Column-type reconciliation\<close>

text \<open>\<open>case_insensitive_map_t<idx_t>\<close> is an unordered map from column names to indices. It
  is an association list here, in the order the map iterates; erasing an entry keeps the
  order of the others. The map's key comparison is declared outside the translation unit,
  so it is the parameter \<open>key_eq\<close> (stored key first). No two keys of a map are
  equivalent, so erasing a key removes every entry it is equivalent to.\<close>

type_synonym case_insensitive_map_t = "(string \<times> idx_t) list"

definition map_find ::
  "(string \<Rightarrow> string \<Rightarrow> bool) \<Rightarrow> case_insensitive_map_t \<Rightarrow> string \<Rightarrow> (string \<times> idx_t) option" where
  "map_find key_eq m name = find (\<lambda>(k, v). key_eq k name) m"

definition map_erase ::
  "(string \<Rightarrow> string \<Rightarrow> bool) \<Rightarrow> case_insensitive_map_t \<Rightarrow> string \<Rightarrow> case_insensitive_map_t" where
  "map_erase key_eq m name = filter (\<lambda>(k, v). \<not> key_eq k name) m"

text \<open>The first loop: every discovered name that is found in the map is erased from it.\<close>

fun erase_names ::
  "(string \<Rightarrow> string \<Rightarrow> bool) \<Rightarrow> case_insensitive_map_t \<Rightarrow> string list \<Rightarrow> case_insensitive_map_t" where
  "erase_names key_eq m [] = m"
| "erase_names key_eq m (name # names) =
     (case map_find key_eq m name of
        Some it \<Rightarrow> erase_names key_eq (map_erase key_eq m name) names
      | None \<Rightarrow> erase_names key_eq m names)"

text \<open>The second loop: each remaining key is appended between double quotes, with a comma
  after it.\<close>

fun append_columns :: "string \<Rightarrow> case_insensitive_map_t \<Rightarrow> string" where
  \<open>append_columns exception [] = exception\<close>
| \<open>append_columns exception (col # cols) =
     append_columns (exception @ (''"'' @ fst col @ ''",'')) cols\<close>

definition ColumnTypesError ::
  "(string \<Rightarrow> string \<Rightarrow> bool) \<Rightarrow> case_insensitive_map_t \<Rightarrow> string list \<Rightarrow> string" where
  "ColumnTypesError key_eq sql_types_per_column names =
     (let remaining = erase_names key_eq sql_types_per_column names
      in if remaining = [] then []
         else butlast (append_columns ''COLUMN_TYPES error: Columns with names: '' remaining)
              @ '' do not exist in the CSV File'')"

section \<open>The statements of the specification\<close>

text \<open>The declared names that no discovered name matches, in the order of the map, and the
  way the message lists them: each between double quotes, separated by commas.\<close>

definition unmatched ::
  "(string \<Rightarrow> string \<Rightarrow> bool) \<Rightarrow> case_insensitive_map_t \<Rightarrow> string list \<Rightarrow> string list" where
  "unmatched key_eq m names = filter (\<lambda>k. \<not> list_ex (key_eq k) names) (map fst m)"

definition quoted :: "string \<Rightarrow> string" where
  \<open>quoted k = ''"'' @ k @ ''"''\<close>

fun comma_separated :: "string list \<Rightarrow> string" where
  "comma_separated [] = []"
| "comma_separated [x] = x"
| "comma_separated (x # y # zs) = x @ '','' @ comma_separated (y # zs)"

section \<open>Concrete inputs\<close>

text \<open>A key comparison that ignores the case of ASCII letters, as the name of
  \<open>case_insensitive_map_t\<close> says.\<close>

definition to_lower :: "char \<Rightarrow> char" where
  "to_lower c =
     (case map_of (zip ''ABCDEFGHIJKLMNOPQRSTUVWXYZ'' ''abcdefghijklmnopqrstuvwxyz'') c of
        Some l \<Rightarrow> l
      | None \<Rightarrow> c)"

definition ci_equals :: "string \<Rightarrow> string \<Rightarrow> bool" where
  "ci_equals a b = (map to_lower a = map to_lower b)"

text \<open>A buffer of ten bytes (\<open>a,b\n1,2\n3\n\<close>), a buffer manager that holds it as buffer 0 of
  file 0 and reports \<open>n\<close> files, and a scanner over it at a given offset.\<close>

definition example_handle :: CSVBufferHandle where
  "example_handle = \<lparr>Ptr = [97, 44, 98, 10, 49, 44, 50, 10, 51, 10], actual_size = 10\<rparr>"

definition example_manager :: "idx_t \<Rightarrow> CSVBufferManager" where
  "example_manager n =
     \<lparr>GetBuffer = (\<lambda>f b. if f = 0 \<and> b = 0 then Some example_handle else None),
      FileCount = n, Done = True, CachedBufferPerFile = (\<lambda>f. 0)\<rparr>"

definition example_scanner :: "idx_t \<Rightarrow> idx_t \<Rightarrow> bool \<Rightarrow> unit ResultScanner" where
  "example_scanner n offset d =
     \<lparr>boundary = \<lparr>file_idx = 0, buffer_idx = 0, buffer_pos = 2, end_pos = 8\<rparr>,
      buffer_manager = example_manager n,
      state_machine = (),
      cur_buffer_handle = Some example_handle,
      buffer_handle_ptr = Ptr example_handle,
      position = \<lparr>file_id = 0, buffer_id = 0, pos = offset, done_flag = d\<rparr>,
      states = \<lparr>current_state = QUOTED\<rparr>,
      initialized = False,
      result = \<lparr>result_position = 3\<rparr>\<rparr>"

text \<open>A scanner over the whole ten-byte buffer of a single file, as the constructor leaves
  it for the boundary \<open>[0, 10)\<close>, at a given offset.\<close>

definition whole_buffer_scanner :: "idx_t \<Rightarrow> unit BaseScanner" where
  "whole_buffer_scanner offset =
     \<lparr>boundary = \<lparr>file_idx = 0, buffer_idx = 0, buffer_pos = 0, end_pos = 10\<rparr>,
      buffer_manager = example_manager 1,
      state_machine = (),
      cur_buffer_handle = Some example_handle,
      buffer_handle_ptr = Ptr example_handle,
      position = \<lparr>file_id = 0, buffer_id = 0, pos = offset, done_flag = False\<rparr>,
      states = CSVStates_default,
      initialized = False\<rparr>"

section \<open>Finished\<close>

text \<open>The cases in which \<open>Finished\<close> returns true, read off the code: the guard throws
  for more than one file, so the end-of-file test runs when the file count is at most one.\<close>

lemma Finished_true_cases:
  "Finished s = Inr True \<longleftrightarrow>
     done_flag (position s) \<or> cur_buffer_handle s = None \<or>
     (FileCount (buffer_manager s) \<le> 1 \<and> Done (buffer_manager s) \<and>
      buffer_id (position s) = CachedBufferPerFile (buffer_manager s) (file_id (position s)) \<and>
      (case cur_buffer_handle s of
         None \<Rightarrow> False
       | Some h \<Rightarrow> pos (position s) + 1 = actual_size h))"
  by (auto simp add: Finished_def not_less split: option.splits)

lemma idx_le_one_iff: "x \<noteq> 0 \<Longrightarrow> x \<le> 1 \<longleftrightarrow> x = (1 :: idx_t)"
proof -
  assume nz: "x \<noteq> 0"
  then have "unat x \<noteq> 0" by (simp add: unat_eq_0)
  moreover have "x \<le> 1 \<longleftrightarrow> unat x \<le> 1" by (simp add: word_le_nat_alt)
  moreover have "x = 1 \<longleftrightarrow> unat x = 1" by (simp add: word_unat_eq_iff)
  ultimately show ?thesis by arith
qed

text \<open>C1: \<open>Finished\<close> returns true exactly when the done flag is set, or the buffer handle
  is absent, or exactly one file is active, the buffer manager reports no more data pending,
  the Position's buffer index is the last buffer of its file (what \<open>CachedBufferPerFile\<close>
  answers for the file) and offset + 1 is the buffer's actual size. A buffer handle is a
  loaded buffer of a file of the scanner's buffer manager (the constructor gets it from
  \<open>GetBuffer\<close>), so a scanner that holds one has a buffer manager with at least one
  file.\<close>

theorem Finished_true_iff:
  assumes "cur_buffer_handle s \<noteq> None \<longrightarrow> FileCount (buffer_manager s) \<noteq> 0"
  shows "Finished s = Inr True \<longleftrightarrow>
     done_flag (position s) \<or> cur_buffer_handle s = None \<or>
     (FileCount (buffer_manager s) = 1 \<and> Done (buffer_manager s) \<and>
      buffer_id (position s) = CachedBufferPerFile (buffer_manager s) (file_id (position s)) \<and>
      (case cur_buffer_handle s of
         None \<Rightarrow> False
       | Some h \<Rightarrow> pos (position s) + 1 = actual_size h))"
proof (cases "cur_buffer_handle s")
  case None
  then show ?thesis by (simp add: Finished_true_cases)
next
  case (Some h)
  with assms have "FileCount (buffer_manager s) \<noteq> 0" by simp
  then have "FileCount (buffer_manager s) \<le> 1 \<longleftrightarrow> FileCount (buffer_manager s) = 1"
    by (rule idx_le_one_iff)
  then show ?thesis by (simp add: Finished_true_cases)
qed

theorem Finished_true_iff_witness:
  "cur_buffer_handle (whole_buffer_scanner 9) \<noteq> None \<and>
   FileCount (buffer_manager (whole_buffer_scanner 9)) = 1 \<and>
   \<not> done_flag (position (whole_buffer_scanner 9)) \<and>
   Done (buffer_manager (whole_buffer_scanner 9)) \<and>
   pos (position (whole_buffer_scanner 9)) + 1 = actual_size example_handle \<and>
   Finished (whole_buffer_scanner 9) = Inr True \<and>
   Finished (whole_buffer_scanner 5) = Inr False"
proof -
  have f: "cur_buffer_handle (whole_buffer_scanner 9) \<noteq> None
           \<longrightarrow> FileCount (buffer_manager (whole_buffer_scanner 9)) \<noteq> 0"
    by (simp add: whole_buffer_scanner_def example_manager_def)
  have g: "Finished (whole_buffer_scanner 5) = Inr False"
    by (simp add: Finished_def whole_buffer_scanner_def example_manager_def example_handle_def)
  show ?thesis
    using g Finished_true_iff [OF f]
    by (simp add: whole_buffer_scanner_def example_manager_def example_handle_def)
qed

text \<open>C2: with the done flag unset and a buffer handle present, \<open>Finished\<close> on a buffer
  manager that reports more than one file raises the internal exception; it returns no
  boolean.\<close>

theorem Finished_multi_file_raises:
  "\<not> done_flag (position s) \<Longrightarrow> cur_buffer_handle s \<noteq> None \<Longrightarrow>
   FileCount (buffer_manager s) > 1 \<Longrightarrow>
   Finished s = Inl (InternalException
     ''We can't have a buffer manager that scans to infinity with more than one file'')"
  by (auto simp add: Finished_def split: option.splits)

theorem Finished_multi_file_raises_witness:
  "\<not> done_flag (position (example_scanner 2 0 False)) \<and>
   cur_buffer_handle (example_scanner 2 0 False) \<noteq> None \<and>
   FileCount (buffer_manager (example_scanner 2 0 False)) > 1 \<and>
   Finished (example_scanner 2 0 False) = Inl (InternalException
     ''We can't have a buffer manager that scans to infinity with more than one file'')"
proof -
  have a: "\<not> done_flag (position (example_scanner 2 0 False))"
    by (simp add: example_scanner_def)
  have b: "cur_buffer_handle (example_scanner 2 0 False) \<noteq> None"
    by (simp add: example_scanner_def)
  have c: "FileCount (buffer_manager (example_scanner 2 0 False)) > 1"
    by (simp add: example_scanner_def example_manager_def)
  show ?thesis using a b c Finished_multi_file_raises [OF a b c] by simp
qed

section \<open>The constructor\<close>

text \<open>Whatever the buffer's size, a scanner that the constructor returns stores the boundary
  it was given: the clamp is applied to the parameter after the member was copied from it.\<close>

lemma BaseScanner_new_boundary:
  "BaseScanner_new bm sm b = Inr s \<Longrightarrow> boundary s = b"
  by (auto simp add: BaseScanner_new_def Let_def split: option.splits)

text \<open>C3 at a boundary that ends at offset 100 of a buffer of 10 valid bytes: the scanner is
  constructed, and its stored boundary still ends at 100, beyond the buffer's actual
  size.\<close>

theorem BaseScanner_new_end_not_clamped:
  "(case BaseScanner_new (example_manager 1) ()
           \<lparr>file_idx = 0, buffer_idx = 0, buffer_pos = 0, end_pos = 100\<rparr> of
      Inl e \<Rightarrow> False
    | Inr s \<Rightarrow>
        GetEndPos (boundary s) = 100 \<and> cur_buffer_handle s = Some example_handle \<and>
        actual_size example_handle = 10 \<and>
        \<not> GetEndPos (boundary s) \<le> actual_size example_handle)"
  by (simp add: BaseScanner_new_def Let_def example_manager_def GetFileIdx_def GetBufferIdx_def
      GetEndPos_def example_handle_def)

section \<open>Initialize and ParseChunkInternal\<close>

text \<open>\<open>Initialize\<close> writes the automaton only; the flag \<open>initialized\<close> is as before. So
  \<open>ParseChunkInternal\<close> on a scanner that was not initialized before \<open>Initialize\<close> runs the
  initialisation again.\<close>

lemma Initialize_initialized: "initialized (Initialize s) = initialized s"
  by (simp add: Initialize_def)

lemma Initialize_current_state: "current_state (states (Initialize s)) = EMPTY_LINE"
  by (simp add: Initialize_def CSVStates_Initialize_def)

lemma ParseChunkInternal_after_Initialize:
  "\<not> initialized s \<Longrightarrow>
   ParseChunkInternal initialize process finalize (Initialize s) =
     (case process (initialize (Initialize s)) of Inl e \<Rightarrow> Inl e | Inr s2 \<Rightarrow> finalize s2)"
  by (simp add: ParseChunkInternal_def Initialize_def)

text \<open>C4 at a scanner whose flag \<open>initialized\<close> is false: \<open>Initialize\<close> puts the automaton
  in the empty-line state, but the flag is still false afterwards; and when the automaton
  has since moved to the quoted state, \<open>ParseChunkInternal\<close> (here with a \<open>Process\<close> and a
  \<open>FinalizeChunkProcess\<close> that do nothing) initialises it again, back to the empty-line
  state.\<close>

theorem Initialize_leaves_flag_unset:
  "current_state (states (Initialize (example_scanner 1 2 False))) = EMPTY_LINE \<and>
   \<not> initialized (Initialize (example_scanner 1 2 False)) \<and>
   ParseChunkInternal Initialize Inr Inr
     ((Initialize (example_scanner 1 2 False))\<lparr>states := \<lparr>current_state = QUOTED\<rparr>\<rparr>)
     = Inr (Initialize (example_scanner 1 2 False))"
  by (simp add: Initialize_def ParseChunkInternal_def example_scanner_def
      CSVStates_Initialize_def)

section \<open>Reset\<close>

text \<open>C5: \<open>Reset\<close> puts the Position's buffer index and offset back to the boundary's buffer
  index and start offset, leaves the Result accumulator of a concrete scanner as it is, and
  is idempotent.\<close>

theorem Reset_rewinds_position:
  fixes s :: "('sm, 'z) ResultScanner_scheme"
  shows "buffer_id (position (Reset s)) = GetBufferIdx (boundary s) \<and>
         pos (position (Reset s)) = GetBufferPos (boundary s) \<and>
         result (Reset s) = result s \<and>
         Reset (Reset s) = Reset s"
  by (simp add: Reset_def)

text \<open>C10: \<open>Reset\<close> leaves the Position's file index and done flag as they are; so a scanner
  whose done flag is set is still finished right after \<open>Reset\<close>.\<close>

theorem Reset_keeps_file_and_done:
  "file_id (position (Reset s)) = file_id (position s) \<and>
   done_flag (position (Reset s)) = done_flag (position s) \<and>
   (done_flag (position s) \<longrightarrow> Finished (Reset s) = Inr True)"
  by (simp add: Reset_def Finished_def)

theorem Reset_keeps_file_and_done_witness:
  "done_flag (position (example_scanner 1 5 True)) \<and>
   file_id (position (Reset (example_scanner 1 5 True))) = 0 \<and>
   done_flag (position (Reset (example_scanner 1 5 True))) \<and>
   pos (position (Reset (example_scanner 1 5 True))) = 2 \<and>
   Finished (Reset (example_scanner 1 5 True)) = Inr True"
proof -
  have d: "done_flag (position (example_scanner 1 5 True))"
    by (simp add: example_scanner_def)
  show ?thesis
    using d Reset_keeps_file_and_done [of "example_scanner 1 5 True"]
    by (simp add: example_scanner_def Reset_def GetBufferPos_def)
qed

section \<open>The unimplemented base operations\<close>

text \<open>C6: on the base scanner, \<open>ParseChunk\<close>, \<open>GetResult\<close>, \<open>Process\<close> and
  \<open>FinalizeChunkProcess\<close> raise an internal exception in every state; none returns.\<close>

theorem base_operations_raise:
  "ParseChunk s =
     Inl (InternalException ''ParseChunk() from CSV Base Scanner is mot implemented'') \<and>
   GetResult s =
     Inl (InternalException ''GetResult() from CSV Base Scanner is mot implemented'') \<and>
   Process s =
     Inl (InternalException ''Process() from CSV Base Scanner is mot implemented'') \<and>
   FinalizeChunkProcess s =
     Inl (InternalException
       ''FinalizeChunkProcess() from CSV Base Scanner is mot implemented'')"
  by (simp add: ParseChunk_def GetResult_def Process_def FinalizeChunkProcess_def)

section \<open>Position and Result\<close>

text \<open>C8: a Position is in a Boundary exactly when its file and buffer indices are the
  boundary's and its offset is at least the boundary's start and below its end.\<close>

theorem InBoundary_iff:
  "InBoundary p b \<longleftrightarrow>
     file_id p = GetFileIdx b \<and> buffer_id p = GetBufferIdx b \<and>
     GetBufferPos b \<le> pos p \<and> pos p < GetEndPos b"
  by (auto simp add: InBoundary_def ScannerBoundary_InBoundary_def GetFileIdx_def
      GetBufferIdx_def GetBufferPos_def GetEndPos_def)

text \<open>C9: \<open>Size\<close> is the cursor \<open>result_position\<close>, and \<open>Empty\<close> holds exactly when
  \<open>Size\<close> is 0.\<close>

theorem Size_Empty:
  "Size r = result_position r \<and> (Empty r \<longleftrightarrow> Size r = 0)"
  by (simp add: Size_def Empty_def)

section \<open>ColumnTypesError\<close>

lemma erase_names_filter:
  "erase_names key_eq m names = filter (\<lambda>(k, v). \<not> list_ex (key_eq k) names) m"
proof (induction names arbitrary: m)
  case Nil
  then show ?case by simp
next
  case (Cons name names)
  show ?case
  proof (cases "map_find key_eq m name")
    case None
    then have no: "\<forall>x \<in> set m. \<not> key_eq (fst x) name"
      by (auto simp add: map_find_def find_None_iff)
    have "filter (\<lambda>(k, v). \<not> list_ex (key_eq k) (name # names)) m
          = filter (\<lambda>(k, v). \<not> list_ex (key_eq k) names) m"
      by (rule filter_cong) (use no in auto)
    with None Cons.IH show ?thesis by simp
  next
    case (Some it)
    then show ?thesis
      by (simp add: Cons.IH map_erase_def case_prod_unfold conj_commute)
  qed
qed

lemma unmatched_eq: "unmatched key_eq m names = map fst (erase_names key_eq m names)"
  by (simp add: unmatched_def erase_names_filter filter_map comp_def case_prod_unfold)

lemma append_columns_concat:
  \<open>append_columns e cols = e @ concat (map (\<lambda>c. quoted (fst c) @ '','') cols)\<close>
  by (induction cols arbitrary: e) (simp_all add: quoted_def)

lemma butlast_commas:
  "ks \<noteq> [] \<Longrightarrow>
   butlast (concat (map (\<lambda>k. quoted k @ '','') ks)) = comma_separated (map quoted ks)"
proof (induction ks rule: comma_separated.induct)
  case 1
  then show ?case by simp
next
  case (2 x)
  then show ?case by (simp add: butlast_append)
next
  case (3 x y zs)
  then show ?case by (simp add: butlast_append quoted_def)
qed

text \<open>C7: \<open>ColumnTypesError\<close> returns the empty string when no declared name is unmatched,
  which is when every declared name is matched by a discovered name under the map's key
  comparison; otherwise it returns one message that lists every unmatched declared name,
  and only those, quoted and separated by commas.\<close>

theorem ColumnTypesError_aggregates:
  "ColumnTypesError key_eq m names =
     (if unmatched key_eq m names = [] then []
      else ''COLUMN_TYPES error: Columns with names: ''
           @ comma_separated (map quoted (unmatched key_eq m names))
           @ '' do not exist in the CSV File'')
   \<and> (unmatched key_eq m names = []
        \<longleftrightarrow> (\<forall>k \<in> set (map fst m). \<exists>n \<in> set names. key_eq k n))"
proof
  let ?r = "erase_names key_eq m names"
  have u: "unmatched key_eq m names = map fst ?r" by (rule unmatched_eq)
  show "ColumnTypesError key_eq m names =
     (if unmatched key_eq m names = [] then []
      else ''COLUMN_TYPES error: Columns with names: ''
           @ comma_separated (map quoted (unmatched key_eq m names))
           @ '' do not exist in the CSV File'')"
  proof (cases "?r = []")
    case True
    then show ?thesis by (simp add: ColumnTypesError_def u)
  next
    case False
    then have ne: "map fst ?r \<noteq> []" by simp
    have "concat (map (\<lambda>c. quoted (fst c) @ '','') ?r) \<noteq> []"
      using False by (cases ?r) (simp_all add: quoted_def)
    then have "butlast (append_columns ''COLUMN_TYPES error: Columns with names: '' ?r)
        = ''COLUMN_TYPES error: Columns with names: ''
          @ butlast (concat (map (\<lambda>k. quoted k @ '','') (map fst ?r)))"
      unfolding append_columns_concat by (simp add: butlast_append comp_def)
    also have "\<dots> = ''COLUMN_TYPES error: Columns with names: ''
          @ comma_separated (map quoted (map fst ?r))"
      using butlast_commas [OF ne] by simp
    finally show ?thesis using False by (simp add: ColumnTypesError_def u Let_def)
  qed
  show "unmatched key_eq m names = []
        \<longleftrightarrow> (\<forall>k \<in> set (map fst m). \<exists>n \<in> set names. key_eq k n)"
    by (auto simp add: unmatched_def filter_empty_conv list_ex_iff)
qed

theorem ColumnTypesError_aggregates_witness:
  \<open>list_all (\<lambda>k. list_ex (ci_equals k) [''id'', ''name'']) (map fst [(''ID'', 0::idx_t)]) \<and>
   ColumnTypesError ci_equals [(''ID'', 0)] [''id'', ''name''] = [] \<and>
   unmatched ci_equals [(''ID'', 0), (''Price'', 1), (''qty'', 2)] [''id'', ''name'']
     = [''Price'', ''qty''] \<and>
   ColumnTypesError ci_equals [(''ID'', 0), (''Price'', 1), (''qty'', 2)] [''id'', ''name'']
     = ''COLUMN_TYPES error: Columns with names: "Price","qty" do not exist in the CSV File''\<close>
proof -
  have u1: "unmatched ci_equals [(''ID'', 0)] [''id'', ''name''] = []"
    by (simp add: unmatched_def ci_equals_def to_lower_def)
  have u2: "unmatched ci_equals [(''ID'', 0), (''Price'', 1), (''qty'', 2)] [''id'', ''name'']
      = [''Price'', ''qty'']"
    by (simp add: unmatched_def ci_equals_def to_lower_def)
  have a: "list_all (\<lambda>k. list_ex (ci_equals k) [''id'', ''name'']) (map fst [(''ID'', 0::idx_t)])"
    by (simp add: ci_equals_def to_lower_def)
  show ?thesis
    using a ColumnTypesError_aggregates [of ci_equals "[(''ID'', 0)]" "[''id'', ''name'']"]
      ColumnTypesError_aggregates
        [of ci_equals "[(''ID'', 0), (''Price'', 1), (''qty'', 2)]" "[''id'', ''name'']"]
    unfolding u1 u2
    by (simp add: quoted_def)
qed

end
